theory Spec2Isabelle
  imports Main "HOL-Library.FSet"
begin

section \<open>Values, element types and errors\<close>

text \<open>
  The development follows \<^verbatim>\<open>zipline/pipeline/data/dataset.py\<close>: abstract columns, the
  descriptor that binds them to the class they are read from, bound columns, and the
  metaclass that collects column names over a class hierarchy.
\<close>

text \<open>Python values that occur as missing values, domains and plain class attributes.
  \<open>PyObj\<close> is an opaque object known by its identity only (a domain object, the NaN
  or NaT singleton).\<close>

datatype pyval = PyNone | PyInt int | PyBool bool | PyStr string | PyObj nat

text \<open>A numpy dtype, as far as this module reads it: \<^verbatim>\<open>dtype.name\<close> and \<^verbatim>\<open>str(dtype)\<close>.\<close>

datatype dtype = DType (dtype_name: string) (dtype_str: string)

text \<open>The \<^verbatim>\<open>missing_value\<close> argument: the sentinel \<^verbatim>\<open>NotSpecified\<close> or a value.\<close>

datatype missing = NotSpecified | Given pyval

datatype error =
    NoDefaultMissingValue string
  | TypeError string
  | AttributeError string
  | RecursionError

section \<open>repr of a name\<close>

text \<open>\<^verbatim>\<open>{name!r}\<close> formats \<^verbatim>\<open>repr(name)\<close>. For a byte string: the quote is the
  double quote when the string has a single quote and no double quote, the single quote
  otherwise; backslash and the chosen quote are escaped, tab, newline and carriage return
  have their letter escapes, and every other byte outside the printable range is written
  in hexadecimal.\<close>

definition hex_digit :: "nat \<Rightarrow> char" where
  "hex_digit n = (''0123456789abcdef'') ! (n mod 16)"

definition repr_char :: "char \<Rightarrow> char \<Rightarrow> string" where
  "repr_char q c =
     (if c = CHR 0x5C then [CHR 0x5C, CHR 0x5C]
      else if c = q then [CHR 0x5C, q]
      else if c = CHR 0x09 then [CHR 0x5C, CHR ''t'']
      else if c = CHR 0x0A then [CHR 0x5C, CHR ''n'']
      else if c = CHR 0x0D then [CHR 0x5C, CHR ''r'']
      else if (of_char c :: nat) < 32 \<or> 127 \<le> (of_char c :: nat)
        then [CHR 0x5C, CHR ''x'', hex_digit (of_char c div 16), hex_digit (of_char c)]
      else [c])"

definition py_repr :: "string \<Rightarrow> string" where
  "py_repr s =
     (let q = (if CHR 0x27 \<in> set s \<and> CHR 0x22 \<notin> set s then CHR 0x22 else CHR 0x27)
      in q # concat (map (repr_char q) s) @ [q])"

text \<open>The characters of a Python identifier (attribute names written in a class body).\<close>

definition ident_char :: "char \<Rightarrow> bool" where
  "ident_char c \<longleftrightarrow>
     (let n = (of_char c :: nat)
      in (48 \<le> n \<and> n \<le> 57) \<or> (65 \<le> n \<and> n \<le> 90) \<or> (97 \<le> n \<and> n \<le> 122) \<or> n = 95)"

definition is_identifier :: "string \<Rightarrow> bool" where
  "is_identifier s \<longleftrightarrow> list_all ident_char s"

section \<open>Column and its descriptor\<close>

text \<open>\<^verbatim>\<open>class Column\<close>: a dtype and a missing value, no name and no dataset. The
  \<^verbatim>\<open>ensure_dtype\<close> preprocessor has already turned the argument into a dtype.\<close>

record Column =
  col_dtype :: dtype
  col_missing_value :: missing

definition Column_init :: "dtype \<Rightarrow> missing \<Rightarrow> Column" where
  "Column_init dt mv = \<lparr>col_dtype = dt, col_missing_value = mv\<rparr>"

text \<open>
  Modelled from the spec: \<^verbatim>\<open>Term.validate_dtype\<close> lives in \<^verbatim>\<open>zipline.pipeline.term\<close>
  and the table of default missing values in \<^verbatim>\<open>zipline.utils.numpy_utils\<close>; neither
  is part of this module. Following the description of the collaborator: an explicit
  missing value is checked for compatibility with the dtype; without one the default of
  the dtype is looked up, and a dtype with no default fails with
  \<^verbatim>\<open>NoDefaultMissingValue\<close>. The table \<open>dflt\<close> and the compatibility check \<open>mv_ok\<close>
  are parameters.
\<close>

definition validate_dtype ::
  "(dtype \<Rightarrow> pyval option) \<Rightarrow> (dtype \<Rightarrow> pyval \<Rightarrow> bool) \<Rightarrow>
   string \<Rightarrow> dtype \<Rightarrow> missing \<Rightarrow> error + (dtype \<times> pyval)" where
  "validate_dtype dflt mv_ok termname dt mv =
     (case mv of
        NotSpecified \<Rightarrow>
          (case dflt dt of
             None \<Rightarrow> Inl (NoDefaultMissingValue (termname @ '' has no default missing value''))
           | Some v \<Rightarrow> Inr (dt, v))
      | Given v \<Rightarrow>
          (if mv_ok dt v then Inr (dt, v)
           else Inl (TypeError (termname @ '' missing value is not valid for its dtype''))))"

text \<open>\<^verbatim>\<open>class _BoundColumnDescr\<close>: the validated dtype and missing value, and the name.\<close>

record BoundColumnDescr =
  descr_dtype :: dtype
  descr_missing_value :: pyval
  descr_name :: string

definition no_default_message :: "string \<Rightarrow> dtype \<Rightarrow> string" where
  "no_default_message name dt =
     ''Failed to create Column with name '' @ py_repr name @ '' and''
     @ '' dtype '' @ dtype_str dt @ '' because no missing_value was provided''
     @ [CHR 0x0A, CHR 0x0A]
     @ ''Columns with dtype '' @ dtype_str dt @ '' require a missing_value.'' @ [CHR 0x0A]
     @ ''Please pass missing_value to Column() or use a different''
     @ '' dtype.''"

text \<open>\<^verbatim>\<open>_BoundColumnDescr.__init__\<close>: validate, and raise \<^verbatim>\<open>NoDefaultMissingValue\<close>
  again with a message that names the column; any other error passes through.\<close>

definition BoundColumnDescr_init ::
  "(dtype \<Rightarrow> pyval option) \<Rightarrow> (dtype \<Rightarrow> pyval \<Rightarrow> bool) \<Rightarrow>
   dtype \<Rightarrow> missing \<Rightarrow> string \<Rightarrow> error + BoundColumnDescr" where
  "BoundColumnDescr_init dflt mv_ok dt mv name =
     (case validate_dtype dflt mv_ok (''Column(name='' @ py_repr name @ '')'') dt mv of
        Inl (NoDefaultMissingValue _) \<Rightarrow>
          Inl (NoDefaultMissingValue (no_default_message name dt))
      | Inl e \<Rightarrow> Inl e
      | Inr (dt', mv') \<Rightarrow>
          Inr \<lparr>descr_dtype = dt', descr_missing_value = mv', descr_name = name\<rparr>)"

text \<open>\<^verbatim>\<open>Column.bind\<close>.\<close>

definition Column_bind ::
  "(dtype \<Rightarrow> pyval option) \<Rightarrow> (dtype \<Rightarrow> pyval \<Rightarrow> bool) \<Rightarrow>
   Column \<Rightarrow> string \<Rightarrow> error + BoundColumnDescr" where
  "Column_bind dflt mv_ok c name =
     BoundColumnDescr_init dflt mv_ok (col_dtype c) (col_missing_value c) name"

section \<open>Classes\<close>

text \<open>A class object is known by its identity, a reference into the heap of classes.
  What a class body or a later \<^verbatim>\<open>setattr\<close> leaves in the namespace of a class is a
  descriptor, the frozenset of column names, or some other value.\<close>

type_synonym cref = nat

datatype attr = ADescr BoundColumnDescr | ANames "string list" | AValue pyval

record pyclass =
  cls_name :: string
  cls_bases :: "cref list"
  cls_mro :: "cref list"
  cls_dict :: "(string \<times> attr) list"

type_synonym heap = "pyclass list"

text \<open>The values of the \<^verbatim>\<open>dict_\<close> a class statement hands to the metaclass: a
  \<^verbatim>\<open>Column\<close> instance or anything else.\<close>

datatype dict_value = DColumn Column | DValue pyval

text \<open>A bound column is a term: domain, dtype and missing value, with the dataset and
  the name. The result of an attribute read on a class is a plain value, a bound column,
  the column names or a frozenset of such results.\<close>

datatype pyobj =
    OVal pyval
  | OBound BoundColumn
  | ONames "string list"
  | OFrozenset "pyobj fset"
and BoundColumn =
    BoundColumn (bc_domain: pyobj) (bc_dtype: dtype) (bc_missing_value: pyval)
                (bc_dataset: cref) (bc_name: string)

subsection \<open>Method resolution order\<close>

text \<open>\<^verbatim>\<open>type.__new__\<close> linearises the bases (C3): the next class is the first head of a
  remaining sequence that is in the tail of none; with no such head the class statement
  fails. \<^verbatim>\<open>object\<close>, last in every order and without any attribute read here, is left
  out.\<close>

definition c3_head_ok :: "cref list list \<Rightarrow> cref \<Rightarrow> bool" where
  "c3_head_ok ss c \<longleftrightarrow> (\<forall>s \<in> set ss. c \<notin> set (tl s))"

definition c3_drop :: "cref \<Rightarrow> cref list \<Rightarrow> cref list" where
  "c3_drop c s = (if hd s = c then tl s else s)"

function c3_merge :: "cref list list \<Rightarrow> cref list option" where
  "c3_merge seqs =
     (let ss = filter (\<lambda>s. s \<noteq> []) seqs in
      if ss = [] then Some []
      else (case find (c3_head_ok ss) (map hd ss) of
              None \<Rightarrow> None
            | Some c \<Rightarrow> map_option ((#) c) (c3_merge (map (c3_drop c) ss))))"
  by pat_completeness auto

lemma c3_filter_le: "sum_list (map length (filter P seqs)) \<le> sum_list (map length seqs)"
  by (induction seqs) auto

lemma c3_drop_sum_le: "sum_list (map length (map (c3_drop c) ss)) \<le> sum_list (map length ss)"
  by (induction ss) (auto simp: c3_drop_def add_le_mono)

lemma c3_drop_sum_less:
  assumes "\<forall>s \<in> set ss. s \<noteq> []" and "c \<in> hd ` set ss"
  shows "sum_list (map length (map (c3_drop c) ss)) < sum_list (map length ss)"
  using assms
proof (induction ss)
  case Nil
  then show ?case by simp
next
  case (Cons s ss)
  show ?case
  proof (cases "hd s = c")
    case True
    have "s \<noteq> []" using Cons.prems(1) by simp
    then have "length (c3_drop c s) < length s" using True by (simp add: c3_drop_def)
    moreover have "sum_list (map length (map (c3_drop c) ss)) \<le> sum_list (map length ss)"
      by (rule c3_drop_sum_le)
    ultimately show ?thesis by simp
  next
    case False
    then have "c \<in> hd ` set ss" using Cons.prems(2) by auto
    then have "sum_list (map length (map (c3_drop c) ss)) < sum_list (map length ss)"
      using Cons.IH Cons.prems(1) by simp
    moreover have "length (c3_drop c s) \<le> length s" by (simp add: c3_drop_def)
    ultimately show ?thesis by simp
  qed
qed

termination c3_merge
proof (relation "measure (\<lambda>seqs. sum_list (map length seqs))")
  show "wf (measure (\<lambda>seqs. sum_list (map length seqs)))" by simp
next
  fix seqs :: "cref list list" and ss c
  assume ss: "ss = filter (\<lambda>s. s \<noteq> []) seqs" and "ss \<noteq> []"
    and f: "find (c3_head_ok ss) (map hd ss) = Some c"
  from f have "c \<in> set (map hd ss)"
    by (auto simp: find_Some_iff)
  then have "c \<in> hd ` set ss" by simp
  moreover have "\<forall>s \<in> set ss. s \<noteq> []" using ss by simp
  ultimately have "sum_list (map length (map (c3_drop c) ss)) < sum_list (map length ss)"
    by (rule c3_drop_sum_less[rotated])
  also have "\<dots> \<le> sum_list (map length seqs)" unfolding ss by (rule c3_filter_le)
  finally show "(map (c3_drop c) ss, seqs) \<in> measure (\<lambda>seqs. sum_list (map length seqs))"
    by simp
qed

declare c3_merge.simps [simp del]

definition class_mro :: "heap \<Rightarrow> cref \<Rightarrow> cref list" where
  "class_mro h r = (if r < length h then cls_mro (h ! r) else [])"

definition compute_mro :: "heap \<Rightarrow> cref \<Rightarrow> cref list \<Rightarrow> cref list option" where
  "compute_mro h r bases =
     map_option ((#) r) (c3_merge (map (class_mro h) bases @ [bases]))"

subsection \<open>Attribute reads on a class\<close>

text \<open>The namespaces of the classes of the resolution order are searched in order.\<close>

fun mro_lookup :: "heap \<Rightarrow> cref list \<Rightarrow> string \<Rightarrow> attr option" where
  "mro_lookup h [] nm = None"
| "mro_lookup h (c # cs) nm =
     (case (if c < length h then map_of (cls_dict (h ! c)) nm else None) of
        Some a \<Rightarrow> Some a
      | None \<Rightarrow> mro_lookup h cs nm)"

definition class_lookup :: "heap \<Rightarrow> cref \<Rightarrow> string \<Rightarrow> attr option" where
  "class_lookup h r nm = mro_lookup h (class_mro h r) nm"

text \<open>
  Modelled from the spec: \<^verbatim>\<open>Term.__new__\<close> and \<^verbatim>\<open>Term.static_identity\<close> are in
  \<^verbatim>\<open>zipline.pipeline.term\<close>. The term is built from the arguments as they are, with no
  validation; the key of the base term is made of the term's own attributes, and two
  terms are the same node exactly when their keys are equal.
\<close>

definition Term_new ::
  "pyobj \<Rightarrow> dtype \<Rightarrow> pyval \<Rightarrow> cref \<Rightarrow> string \<Rightarrow> error + BoundColumn" where
  "Term_new dmn dt mv dataset name = Inr (BoundColumn dmn dt mv dataset name)"

definition Term_static_identity :: "pyobj \<Rightarrow> dtype \<Rightarrow> pyval \<Rightarrow> pyobj \<times> dtype \<times> pyval" where
  "Term_static_identity dmn dt mv = (dmn, dt, mv)"

text \<open>\<^verbatim>\<open>BoundColumn.__new__\<close> reads \<^verbatim>\<open>dataset.domain\<close>; \<open>ga\<close> is the attribute read
  available inside the call.\<close>

definition BoundColumn_new ::
  "(cref \<Rightarrow> string \<Rightarrow> error + pyobj) \<Rightarrow>
   dtype \<Rightarrow> pyval \<Rightarrow> cref \<Rightarrow> string \<Rightarrow> error + BoundColumn" where
  "BoundColumn_new ga dt mv dataset name =
     (case ga dataset ''domain'' of
        Inl e \<Rightarrow> Inl e
      | Inr dmn \<Rightarrow> Term_new dmn dt mv dataset name)"

text \<open>\<^verbatim>\<open>BoundColumn.static_identity\<close>: the key of the base term, the dataset and the
  name.\<close>

definition static_identity ::
  "BoundColumn \<Rightarrow> (pyobj \<times> dtype \<times> pyval) \<times> cref \<times> string" where
  "static_identity b =
     (Term_static_identity (bc_domain b) (bc_dtype b) (bc_missing_value b),
      bc_dataset b, bc_name b)"

text \<open>The class attributes of \<^verbatim>\<open>BoundColumn\<close>: the same for every instance.\<close>

datatype mask_term = AssetExists

definition mask :: "BoundColumn \<Rightarrow> mask_term" where
  "mask b = AssetExists"

definition extra_input_rows :: "BoundColumn \<Rightarrow> nat" where
  "extra_input_rows b = 0"

definition inputs :: "BoundColumn \<Rightarrow> pyobj list" where
  "inputs b = []"

text \<open>\<^verbatim>\<open>_BoundColumnDescr.__get__\<close>, called with the class the attribute is read on.\<close>

definition BoundColumnDescr_get ::
  "(cref \<Rightarrow> string \<Rightarrow> error + pyobj) \<Rightarrow> BoundColumnDescr \<Rightarrow> cref \<Rightarrow> error + BoundColumn" where
  "BoundColumnDescr_get ga d owner =
     BoundColumn_new ga (descr_dtype d) (descr_missing_value d) owner (descr_name d)"

text \<open>\<^verbatim>\<open>qualname\<close> and \<^verbatim>\<open>__repr__\<close>.\<close>

definition qualname :: "heap \<Rightarrow> BoundColumn \<Rightarrow> string" where
  "qualname h b = cls_name (h ! bc_dataset b) @ ''.'' @ bc_name b"

definition BoundColumn_repr :: "heap \<Rightarrow> BoundColumn \<Rightarrow> string" where
  "BoundColumn_repr h b = qualname h b @ ''::'' @ dtype_name (bc_dtype b)"

section \<open>The metaclass\<close>

text \<open>The first error of a sequence of results, or all the values.\<close>

fun collect :: "(error + 'a) list \<Rightarrow> error + 'a list" where
  "collect [] = Inr []"
| "collect (Inl e # xs) = Inl e"
| "collect (Inr v # xs) = (case collect xs of Inl e \<Rightarrow> Inl e | Inr vs \<Rightarrow> Inr (v # vs))"

text \<open>Iterating over what was read as \<^verbatim>\<open>_column_names\<close>: the names of the frozenset
  in its iteration order, the characters of a string, and a \<^verbatim>\<open>TypeError\<close> for an
  object that cannot be iterated. (A read of \<^verbatim>\<open>_column_names\<close> never gives the
  frozenset built by \<^verbatim>\<open>columns\<close>.)\<close>

fun iter_names :: "pyobj \<Rightarrow> error + string list" where
  "iter_names (ONames ns) = Inr ns"
| "iter_names (OVal (PyStr s)) = Inr (map (\<lambda>c. [c]) s)"
| "iter_names _ = Inl (TypeError ''object is not iterable'')"

text \<open>The property \<^verbatim>\<open>DataSetMeta.columns\<close>: \<^verbatim>\<open>getattr(self, colname)\<close> for every
  name of \<^verbatim>\<open>self._column_names\<close>, as a frozenset.\<close>

definition columns :: "(cref \<Rightarrow> string \<Rightarrow> error + pyobj) \<Rightarrow> cref \<Rightarrow> error + pyobj" where
  "columns ga self =
     (case ga self ''_column_names'' of
        Inl e \<Rightarrow> Inl e
      | Inr ob \<Rightarrow>
          (case iter_names ob of
             Inl e \<Rightarrow> Inl e
           | Inr names \<Rightarrow>
               (case collect (map (ga self) names) of
                  Inl e \<Rightarrow> Inl e
                | Inr objs \<Rightarrow> Inr (OFrozenset (fset_of_list objs)))))"

text \<open>
  An attribute read \<^verbatim>\<open>cls.nm\<close> on a class whose metaclass is \<^verbatim>\<open>DataSetMeta\<close>. The data
  descriptors of the metaclass come first: the property \<^verbatim>\<open>columns\<close> and the slot
  \<^verbatim>\<open>__name__\<close>. Then the namespaces of the resolution order are searched; a descriptor
  found there is called with the class the read started from. \<open>deeper\<close> is the attribute
  read one call further down the stack, or \<open>None\<close> when the stack has no room for
  another call.
\<close>

definition getattr_step ::
  "(cref \<Rightarrow> string \<Rightarrow> error + pyobj) option \<Rightarrow> heap \<Rightarrow> cref \<Rightarrow> string \<Rightarrow> error + pyobj" where
  "getattr_step deeper h r nm =
     (if nm = ''__name__'' then Inr (OVal (PyStr (cls_name (h ! r))))
      else if nm = ''columns'' then
        (case deeper of None \<Rightarrow> Inl RecursionError | Some ga \<Rightarrow> columns ga r)
      else
        (case class_lookup h r nm of
           None \<Rightarrow> Inl (AttributeError nm)
         | Some (AValue v) \<Rightarrow> Inr (OVal v)
         | Some (ANames ns) \<Rightarrow> Inr (ONames ns)
         | Some (ADescr d) \<Rightarrow>
             (case deeper of
                None \<Rightarrow> Inl RecursionError
              | Some ga \<Rightarrow> map_sum id OBound (BoundColumnDescr_get ga d r))))"

text \<open>\<open>class_getattr h n\<close> is the attribute read with room for \<open>n\<close> nested calls.\<close>

primrec class_getattr :: "heap \<Rightarrow> nat \<Rightarrow> cref \<Rightarrow> string \<Rightarrow> error + pyobj" where
  "class_getattr h 0 = getattr_step None h"
| "class_getattr h (Suc n) = getattr_step (Some (class_getattr h n)) h"

text \<open>\<^verbatim>\<open>getattr(base, nm, default)\<close>: only \<^verbatim>\<open>AttributeError\<close> gives the default.\<close>

definition getattr_default ::
  "(cref \<Rightarrow> string \<Rightarrow> error + pyobj) \<Rightarrow> cref \<Rightarrow> string \<Rightarrow> pyobj \<Rightarrow> error + pyobj" where
  "getattr_default ga r nm d =
     (case ga r nm of Inl (AttributeError _) \<Rightarrow> Inr d | x \<Rightarrow> x)"

text \<open>The loop of \<^verbatim>\<open>DataSetMeta.__new__\<close> over the items of \<^verbatim>\<open>dict_\<close>: a
  \<^verbatim>\<open>Column\<close> is bound to its name and replaced by the descriptor, and its name is
  collected; the first failing \<^verbatim>\<open>bind\<close> ends the loop.\<close>

fun bind_columns ::
  "(dtype \<Rightarrow> pyval option) \<Rightarrow> (dtype \<Rightarrow> pyval \<Rightarrow> bool) \<Rightarrow>
   (string \<times> dict_value) list \<Rightarrow> error + ((string \<times> attr) list \<times> string list)" where
  "bind_columns dflt mv_ok [] = Inr ([], [])"
| "bind_columns dflt mv_ok ((k, DValue v) # rest) =
     (case bind_columns dflt mv_ok rest of
        Inl e \<Rightarrow> Inl e
      | Inr (entries, names) \<Rightarrow> Inr ((k, AValue v) # entries, names))"
| "bind_columns dflt mv_ok ((k, DColumn c) # rest) =
     (case Column_bind dflt mv_ok c k of
        Inl e \<Rightarrow> Inl e
      | Inr d \<Rightarrow>
          (case bind_columns dflt mv_ok rest of
             Inl e \<Rightarrow> Inl e
           | Inr (entries, names) \<Rightarrow> Inr ((k, ADescr d) # entries, k # names)))"

text \<open>The column names inherited from the bases:
  \<^verbatim>\<open>set().union(*(getattr(base, '_column_names', ()) for base in bases))\<close>.\<close>

definition inherited_names ::
  "(cref \<Rightarrow> string \<Rightarrow> error + pyobj) \<Rightarrow> cref list \<Rightarrow> error + string list" where
  "inherited_names ga bases =
     (case collect (map (\<lambda>b. case getattr_default ga b ''_column_names'' (ONames []) of
                               Inl e \<Rightarrow> Inl e
                             | Inr ob \<Rightarrow> iter_names ob) bases) of
        Inl e \<Rightarrow> Inl e
      | Inr nss \<Rightarrow> Inr (concat nss))"

text \<open>
  \<^verbatim>\<open>DataSetMeta.__new__(mcls, name, bases, dict_)\<close> in the heap \<open>h\<close>, with room for \<open>n\<close>
  nested calls: the class is made by \<^verbatim>\<open>type.__new__\<close> (the bases are classes and their
  orders merge, or the statement fails), the names of the bases are collected, the columns
  of \<^verbatim>\<open>dict_\<close> (here \<open>dct\<close>) are bound, and \<^verbatim>\<open>_column_names\<close> is set last. The result is the new heap and
  the new class.
\<close>

definition DataSetMeta_new ::
  "(dtype \<Rightarrow> pyval option) \<Rightarrow> (dtype \<Rightarrow> pyval \<Rightarrow> bool) \<Rightarrow> heap \<Rightarrow> nat \<Rightarrow>
   string \<Rightarrow> cref list \<Rightarrow> (string \<times> dict_value) list \<Rightarrow> error + (heap \<times> cref)" where
  "DataSetMeta_new dflt mv_ok h n name bases dct =
     (let newtype = length h in
      if \<not> list_all (\<lambda>b. b < length h) bases then Inl (TypeError ''bases must be types'')
      else
        (case compute_mro h newtype bases of
           None \<Rightarrow> Inl (TypeError ''Cannot create a consistent method resolution order'')
         | Some mro \<Rightarrow>
             (case inherited_names (class_getattr h n) bases of
                Inl e \<Rightarrow> Inl e
              | Inr inherited \<Rightarrow>
                  (case bind_columns dflt mv_ok dct of
                     Inl e \<Rightarrow> Inl e
                   | Inr (entries, own) \<Rightarrow>
                       Inr (h @ [\<lparr>cls_name = name, cls_bases = bases, cls_mro = mro,
                                  cls_dict = (''_column_names'', ANames (remdups (inherited @ own)))
                                             # entries\<rparr>],
                            newtype)))))"

text \<open>\<^verbatim>\<open>self._column_names\<close> of a class, as a set.\<close>

definition column_names :: "heap \<Rightarrow> cref \<Rightarrow> string set" where
  "column_names h r =
     (case class_lookup h r ''_column_names'' of Some (ANames ns) \<Rightarrow> set ns | _ \<Rightarrow> {})"

text \<open>\<^verbatim>\<open>class DataSet(with_metaclass(DataSetMeta, object)): domain = None\<close>, the first
  class of the heap.\<close>

definition DataSet :: cref where
  "DataSet = 0"

definition DataSet_heap :: heap where
  "DataSet_heap =
     [\<lparr>cls_name = ''DataSet'', cls_bases = [], cls_mro = [0],
       cls_dict = [(''_column_names'', ANames []), (''domain'', AValue PyNone)]\<rparr>]"

section \<open>Facts about repr and binding\<close>

lemma ident_char_range: "ident_char c \<Longrightarrow> 32 \<le> (of_char c :: nat) \<and> (of_char c :: nat) < 127
   \<and> (of_char c :: nat) \<noteq> 92 \<and> (of_char c :: nat) \<noteq> 39"
  unfolding ident_char_def Let_def by arith

lemma of_char_neq: "(of_char c :: nat) \<noteq> of_char d \<Longrightarrow> c \<noteq> d"
  by auto

lemma ident_char_not_quote: "ident_char c \<Longrightarrow> c \<noteq> CHR 0x27"
  using ident_char_range[of c] by (intro of_char_neq) simp

lemma repr_char_ident:
  assumes "ident_char c"
  shows "repr_char (CHR 0x27) c = [c]"
proof -
  note r = ident_char_range[OF assms]
  have 1: "c \<noteq> CHR 0x5C" using r by (intro of_char_neq) simp
  have 2: "c \<noteq> CHR 0x27" using r by (intro of_char_neq) simp
  have 3: "c \<noteq> CHR 0x09" using r by (intro of_char_neq) simp
  have 4: "c \<noteq> CHR 0x0A" using r by (intro of_char_neq) simp
  have 5: "c \<noteq> CHR 0x0D" using r by (intro of_char_neq) simp
  have 6: "\<not> ((of_char c :: nat) < 32 \<or> 127 \<le> (of_char c :: nat))" using r by arith
  show ?thesis unfolding repr_char_def using 1 2 3 4 5 6 by (simp only: if_False)
qed

lemma concat_repr_ident: "list_all ident_char s \<Longrightarrow> concat (map (repr_char (CHR 0x27)) s) = s"
  by (induction s) (simp_all add: repr_char_ident)

lemma py_repr_identifier:
  assumes "is_identifier s"
  shows "py_repr s = CHR 0x27 # s @ [CHR 0x27]"
proof -
  have a: "list_all ident_char s" using assms by (simp add: is_identifier_def)
  then have "CHR 0x27 \<notin> set s"
    using ident_char_not_quote by (auto simp: list_all_iff)
  then show ?thesis using a
    by (simp add: py_repr_def Let_def concat_repr_ident)
qed


lemma bind_columns_fails:
  "(k, DColumn c) \<in> set dct \<Longrightarrow> isl (Column_bind dflt mv_ok c k) \<Longrightarrow>
   isl (bind_columns dflt mv_ok dct)"
proof (induction dflt mv_ok dct rule: bind_columns.induct)
  case (1 dflt mv_ok)
  then show ?case by simp
next
  case (2 dflt mv_ok k' v rest)
  then show ?case by (auto split: sum.splits)
next
  case (3 dflt mv_ok k' c' rest)
  then show ?case by (auto split: sum.splits)
qed

lemma no_default_message_name:
  "is_identifier name \<Longrightarrow> \<exists>p q. no_default_message name dt = p @ name @ q"
proof -
  assume a: "is_identifier name"
  have "no_default_message name dt =
      (''Failed to create Column with name '' @ [CHR 0x27]) @ name @
      ([CHR 0x27] @ '' and'' @ '' dtype '' @ dtype_str dt @ '' because no missing_value was provided''
     @ [CHR 0x0A, CHR 0x0A]
     @ ''Columns with dtype '' @ dtype_str dt @ '' require a missing_value.'' @ [CHR 0x0A]
     @ ''Please pass missing_value to Column() or use a different''
     @ '' dtype.'')"
    unfolding no_default_message_def py_repr_identifier[OF a] by (simp only: append_assoc append_Cons append_Nil)
  then show ?thesis by (intro exI)
qed

lemma no_default_message_dtype:
  "\<exists>p q. no_default_message name dt = p @ dtype_str dt @ q"
proof -
  have "no_default_message name dt =
      (''Failed to create Column with name '' @ py_repr name @ '' and'' @ '' dtype '')
      @ dtype_str dt @
      ('' because no missing_value was provided''
     @ [CHR 0x0A, CHR 0x0A]
     @ ''Columns with dtype '' @ dtype_str dt @ '' require a missing_value.'' @ [CHR 0x0A]
     @ ''Please pass missing_value to Column() or use a different''
     @ '' dtype.'')"
    unfolding no_default_message_def by (simp only: append_assoc)
  then show ?thesis by (intro exI)
qed


lemma DataSetMeta_new_bind_fails:
  assumes "isl (bind_columns dflt mv_ok dct)"
  shows "isl (DataSetMeta_new dflt mv_ok h n cname bases dct)"
proof -
  from assms obtain e where "bind_columns dflt mv_ok dct = Inl e"
    by (cases "bind_columns dflt mv_ok dct") auto
  then show ?thesis
    by (simp add: DataSetMeta_new_def Let_def split: option.splits sum.splits)
qed

section \<open>The claims\<close>

subsection \<open>Failing at definition time\<close>

text \<open>
  Claim C3. For a dtype with no default missing value, binding a column of that dtype
  declared without a missing value fails when the descriptor is built, with
  \<^verbatim>\<open>NoDefaultMissingValue\<close>; the message contains the name of the column (an
  identifier) and the dtype; and the class statement that declares such a column fails,
  so the failure comes at definition time and not at a later attribute read.
\<close>

theorem no_default_fails_at_definition:
  assumes "dflt dt = None" and "is_identifier name"
  shows "Column_bind dflt mv_ok (Column_init dt NotSpecified) name
           = Inl (NoDefaultMissingValue (no_default_message name dt))
         \<and> (\<exists>p q. no_default_message name dt = p @ name @ q)
         \<and> (\<exists>p q. no_default_message name dt = p @ dtype_str dt @ q)
         \<and> ((name, DColumn (Column_init dt NotSpecified)) \<in> set dct \<longrightarrow>
              isl (DataSetMeta_new dflt mv_ok h n cname bases dct))"
proof -
  have b: "Column_bind dflt mv_ok (Column_init dt NotSpecified) name
           = Inl (NoDefaultMissingValue (no_default_message name dt))"
    using assms(1)
    by (simp add: Column_bind_def Column_init_def BoundColumnDescr_init_def validate_dtype_def)
  have d: "isl (DataSetMeta_new dflt mv_ok h n cname bases dct)"
    if m: "(name, DColumn (Column_init dt NotSpecified)) \<in> set dct"
  proof -
    have "isl (bind_columns dflt mv_ok dct)"
      by (rule bind_columns_fails[OF m]) (simp add: b)
    then show ?thesis by (rule DataSetMeta_new_bind_fails)
  qed
  show ?thesis
    using b no_default_message_name[OF assms(2)] no_default_message_dtype d by blast
qed

theorem no_default_fails_at_definition_witness:
  "(\<lambda>d. None :: pyval option) (DType ''int64'' ''int64'') = None
   \<and> is_identifier ''volume''
   \<and> Column_bind (\<lambda>d. None) (\<lambda>d v. True) (Column_init (DType ''int64'' ''int64'') NotSpecified) ''volume''
       = Inl (NoDefaultMissingValue (no_default_message ''volume'' (DType ''int64'' ''int64'')))
   \<and> isl (DataSetMeta_new (\<lambda>d. None) (\<lambda>d v. True) DataSet_heap 0 ''PriceData'' [DataSet]
            [(''volume'', DColumn (Column_init (DType ''int64'' ''int64'') NotSpecified))])"
proof -
  have i: "is_identifier ''volume''"
    by (simp add: is_identifier_def ident_char_def)
  have n: "(\<lambda>d. None :: pyval option) (DType ''int64'' ''int64'') = None" by simp
  show ?thesis
    using i no_default_fails_at_definition[OF n i,
        where mv_ok = "\<lambda>d v. True"
          and dct = "[(''volume'', DColumn (Column_init (DType ''int64'' ''int64'') NotSpecified))]"
          and h = DataSet_heap and n = 0 and cname = "''PriceData''" and bases = "[DataSet]"]
    by simp
qed

subsection \<open>Identity of bound columns\<close>

lemma BoundColumn_new_Inr:
  "BoundColumn_new ga dt mv ds nm = Inr b \<longleftrightarrow>
   (\<exists>dmn. ga ds ''domain'' = Inr dmn \<and> b = BoundColumn dmn dt mv ds nm)"
  by (auto simp: BoundColumn_new_def Term_new_def split: sum.splits)

lemma BoundColumn_new_domain:
  "ga ds ''domain'' = Inr dmn \<Longrightarrow> BoundColumn_new ga dt mv ds nm = Inr (BoundColumn dmn dt mv ds nm)"
  by (simp add: BoundColumn_new_def Term_new_def)

lemma BoundColumn_new_error:
  "ga ds ''domain'' = Inl e \<Longrightarrow> BoundColumn_new ga dt mv ds nm = Inl e"
  by (simp add: BoundColumn_new_def)

text \<open>
  Claim C1. Two bound columns (built by \<^verbatim>\<open>BoundColumn.__new__\<close> from the same classes)
  have the same identity key, and are the same term, exactly when their dtype, missing
  value, dataset and name agree. The domain is read from the dataset, and the mask, the
  inputs and the extra input rows are the same for every bound column, so none of them
  tells apart two bound columns that agree on the four.
\<close>

theorem bound_column_identity:
  assumes "BoundColumn_new ga dt1 mv1 ds1 nm1 = Inr b1"
      and "BoundColumn_new ga dt2 mv2 ds2 nm2 = Inr b2"
  shows "(static_identity b1 = static_identity b2 \<longleftrightarrow>
            (bc_dtype b1, bc_missing_value b1, bc_dataset b1, bc_name b1)
          = (bc_dtype b2, bc_missing_value b2, bc_dataset b2, bc_name b2))
       \<and> (b1 = b2 \<longleftrightarrow> static_identity b1 = static_identity b2)
       \<and> (bc_dataset b1 = bc_dataset b2 \<longrightarrow> bc_domain b1 = bc_domain b2)
       \<and> mask b1 = mask b2 \<and> inputs b1 = inputs b2
       \<and> extra_input_rows b1 = extra_input_rows b2"
proof -
  from assms(1) obtain d1 where 1: "ga ds1 ''domain'' = Inr d1" "b1 = BoundColumn d1 dt1 mv1 ds1 nm1"
    by (auto simp: BoundColumn_new_Inr)
  from assms(2) obtain d2 where 2: "ga ds2 ''domain'' = Inr d2" "b2 = BoundColumn d2 dt2 mv2 ds2 nm2"
    by (auto simp: BoundColumn_new_Inr)
  have d: "ds1 = ds2 \<Longrightarrow> d1 = d2" using 1(1) 2(1) by simp
  show ?thesis
    using d by (auto simp: 1(2) 2(2) static_identity_def Term_static_identity_def
        mask_def inputs_def extra_input_rows_def)
qed


lemma DataSet_domain: "class_getattr DataSet_heap n DataSet ''domain'' = Inr (OVal PyNone)"
  by (cases n) (simp_all add: getattr_step_def class_lookup_def class_mro_def DataSet_heap_def DataSet_def)

lemma DataSet_column:
  "BoundColumn_new (class_getattr DataSet_heap n) dt mv DataSet nm
     = Inr (BoundColumn (OVal PyNone) dt mv DataSet nm)"
  by (rule BoundColumn_new_domain) (rule DataSet_domain)

theorem bound_column_identity_witness:
  "BoundColumn_new (class_getattr DataSet_heap 0) (DType ''float64'' ''float64'') (PyObj 0) DataSet ''price''
     = Inr (BoundColumn (OVal PyNone) (DType ''float64'' ''float64'') (PyObj 0) DataSet ''price'')
   \<and> BoundColumn_new (class_getattr DataSet_heap 0) (DType ''float64'' ''float64'') (PyObj 0) DataSet ''close''
     = Inr (BoundColumn (OVal PyNone) (DType ''float64'' ''float64'') (PyObj 0) DataSet ''close'')
   \<and> static_identity (BoundColumn (OVal PyNone) (DType ''float64'' ''float64'') (PyObj 0) DataSet ''price'')
     \<noteq> static_identity (BoundColumn (OVal PyNone) (DType ''float64'' ''float64'') (PyObj 0) DataSet ''close'')"
proof -
  have 1: "BoundColumn_new (class_getattr DataSet_heap 0) (DType ''float64'' ''float64'') (PyObj 0) DataSet ''price''
     = Inr (BoundColumn (OVal PyNone) (DType ''float64'' ''float64'') (PyObj 0) DataSet ''price'')"
    by (rule BoundColumn_new_domain) (rule DataSet_domain)
  have 2: "BoundColumn_new (class_getattr DataSet_heap 0) (DType ''float64'' ''float64'') (PyObj 0) DataSet ''close''
     = Inr (BoundColumn (OVal PyNone) (DType ''float64'' ''float64'') (PyObj 0) DataSet ''close'')"
    by (rule BoundColumn_new_domain) (rule DataSet_domain)
  show ?thesis using 1 2 bound_column_identity[OF 1 2] by simp
qed

subsection \<open>Names\<close>

text \<open>
  Claim C8. The qualified name of the bound column a descriptor gives for an owner is
  the name of the owner class, a dot and the name of the column; its text representation
  is the qualified name, two colons and the name of the dtype.
\<close>

theorem qualname_and_repr:
  assumes "BoundColumnDescr_get ga d owner = Inr b"
  shows "qualname h b = cls_name (h ! owner) @ ''.'' @ descr_name d
       \<and> BoundColumn_repr h b = qualname h b @ ''::'' @ dtype_name (descr_dtype d)"
  using assms
  by (auto simp: BoundColumnDescr_get_def BoundColumn_new_Inr qualname_def BoundColumn_repr_def)

theorem qualname_and_repr_witness:
  "BoundColumnDescr_get (class_getattr DataSet_heap 0)
       \<lparr>descr_dtype = DType ''float64'' ''float64'', descr_missing_value = PyObj 0, descr_name = ''price''\<rparr>
       DataSet
     = Inr (BoundColumn (OVal PyNone) (DType ''float64'' ''float64'') (PyObj 0) DataSet ''price'')
   \<and> qualname DataSet_heap (BoundColumn (OVal PyNone) (DType ''float64'' ''float64'') (PyObj 0) DataSet ''price'')
       = ''DataSet.price''
   \<and> BoundColumn_repr DataSet_heap (BoundColumn (OVal PyNone) (DType ''float64'' ''float64'') (PyObj 0) DataSet ''price'')
       = ''DataSet.price::float64''"
proof -
  have 1: "BoundColumnDescr_get (class_getattr DataSet_heap 0)
       \<lparr>descr_dtype = DType ''float64'' ''float64'', descr_missing_value = PyObj 0, descr_name = ''price''\<rparr>
       DataSet
     = Inr (BoundColumn (OVal PyNone) (DType ''float64'' ''float64'') (PyObj 0) DataSet ''price'')"
    unfolding BoundColumnDescr_get_def by (simp add: DataSet_column del: class_getattr.simps)
  show ?thesis
    using 1 qualname_and_repr[OF 1, where h = DataSet_heap]
    by (simp add: DataSet_heap_def DataSet_def)
qed

section \<open>Example classes\<close>

text \<open>Two dtypes, a table of defaults in which only \<open>float64\<close> has one (as int64 has
  none in numpy), and a dataset that declares a column named \<^verbatim>\<open>domain\<close>:
  \<^verbatim>\<open>class D(DataSet): domain = Column(float64); price = Column(float64)\<close>.\<close>

definition float64 :: dtype where
  "float64 = DType ''float64'' ''float64''"

definition int64 :: dtype where
  "int64 = DType ''int64'' ''int64''"

definition NaN :: pyval where
  "NaN = PyObj 0"

definition numpy_defaults :: "dtype \<Rightarrow> pyval option" where
  "numpy_defaults dt = (if dt = float64 then Some NaN else None)"

definition any_value_ok :: "dtype \<Rightarrow> pyval \<Rightarrow> bool" where
  "any_value_ok dt v = True"

definition domain_column_heap :: heap where
  "domain_column_heap = DataSet_heap @
     [\<lparr>cls_name = ''D'', cls_bases = [DataSet], cls_mro = [1, 0],
       cls_dict = [(''_column_names'', ANames [''domain'', ''price'']),
                   (''domain'', ADescr \<lparr>descr_dtype = float64, descr_missing_value = NaN, descr_name = ''domain''\<rparr>),
                   (''price'', ADescr \<lparr>descr_dtype = float64, descr_missing_value = NaN, descr_name = ''price''\<rparr>)]\<rparr>]"

section \<open>Reading attributes: general facts\<close>

lemma class_getattr_value:
  assumes "nm \<noteq> ''__name__''" and "nm \<noteq> ''columns''"
      and "class_lookup h r nm = Some (AValue v)"
  shows "class_getattr h n r nm = Inr (OVal v)"
  using assms by (cases n) (simp_all add: getattr_step_def)

lemma class_getattr_names:
  assumes "nm \<noteq> ''__name__''" and "nm \<noteq> ''columns''"
      and "class_lookup h r nm = Some (ANames ns)"
  shows "class_getattr h n r nm = Inr (ONames ns)"
  using assms by (cases n) (simp_all add: getattr_step_def)

lemma class_getattr_missing:
  assumes "nm \<noteq> ''__name__''" and "nm \<noteq> ''columns''"
      and "class_lookup h r nm = None"
  shows "class_getattr h n r nm = Inl (AttributeError nm)"
  using assms by (cases n) (simp_all add: getattr_step_def)

lemma class_getattr_descr:
  assumes "nm \<noteq> ''__name__''" and "nm \<noteq> ''columns''"
      and "class_lookup h r nm = Some (ADescr d)"
  shows "class_getattr h (Suc n) r nm
           = map_sum id OBound (BoundColumnDescr_get (class_getattr h n) d r)"
    and "class_getattr h 0 r nm = Inl RecursionError"
  using assms by (simp_all add: getattr_step_def)

lemma inherited_names_of:
  assumes "\<forall>b \<in> set bases. class_lookup h b ''_column_names'' = Some (ANames (ns b))"
  shows "inherited_names (class_getattr h n) bases = Inr (concat (map ns bases))"
proof -
  have "collect (map (\<lambda>b. case getattr_default (class_getattr h n) b ''_column_names'' (ONames []) of
                               Inl e \<Rightarrow> Inl e
                             | Inr ob \<Rightarrow> iter_names ob) bases) = Inr (map ns bases)"
    using assms
  proof (induction bases)
    case Nil
    then show ?case by simp
  next
    case (Cons b bases)
    have "class_getattr h n b ''_column_names'' = Inr (ONames (ns b))"
      by (rule class_getattr_names) (use Cons.prems in simp_all)
    then show ?case using Cons by (simp add: getattr_default_def)
  qed
  then show ?thesis by (simp add: inherited_names_def)
qed

lemma DataSet_column_names: "class_lookup DataSet_heap DataSet ''_column_names'' = Some (ANames [])"
  by (simp add: class_lookup_def class_mro_def DataSet_heap_def DataSet_def)

lemma DataSet_heap_built:
  "DataSetMeta_new numpy_defaults any_value_ok [] n ''DataSet'' [] [(''domain'', DValue PyNone)]
     = Inr (DataSet_heap, DataSet)"
  by (simp add: DataSetMeta_new_def compute_mro_def c3_merge.simps inherited_names_def
        DataSet_heap_def DataSet_def)

lemma domain_column_heap_built:
  "DataSetMeta_new numpy_defaults any_value_ok DataSet_heap n ''D'' [DataSet]
      [(''domain'', DColumn (Column_init float64 NotSpecified)),
       (''price'', DColumn (Column_init float64 NotSpecified))]
     = Inr (domain_column_heap, 1)"
proof -
  have i: "inherited_names (class_getattr DataSet_heap n) [DataSet] = Inr []"
    using inherited_names_of[where bases = "[DataSet]" and h = DataSet_heap and ns = "\<lambda>b. []" and n = n]
    by (simp add: DataSet_column_names)
  have m: "compute_mro DataSet_heap (length DataSet_heap) [DataSet] = Some [1, 0]"
    by (simp add: compute_mro_def class_mro_def DataSet_heap_def DataSet_def c3_merge.simps
        c3_head_ok_def c3_drop_def)
  have b: "bind_columns numpy_defaults any_value_ok
      [(''domain'', DColumn (Column_init float64 NotSpecified)),
       (''price'', DColumn (Column_init float64 NotSpecified))]
     = Inr ([(''domain'', ADescr \<lparr>descr_dtype = float64, descr_missing_value = NaN, descr_name = ''domain''\<rparr>),
             (''price'', ADescr \<lparr>descr_dtype = float64, descr_missing_value = NaN, descr_name = ''price''\<rparr>)],
            [''domain'', ''price''])"
    by (simp add: Column_bind_def Column_init_def BoundColumnDescr_init_def validate_dtype_def
        numpy_defaults_def)
  have l: "list_all (\<lambda>b. b < length DataSet_heap) [DataSet]"
    by (simp add: DataSet_heap_def DataSet_def)
  show ?thesis
    unfolding DataSetMeta_new_def Let_def
    by (simp only: l i m b) (simp add: domain_column_heap_def DataSet_def DataSet_heap_def)
qed

section \<open>Reading a column on a class\<close>

lemma BoundColumnDescr_get_domain:
  "ga owner ''domain'' = Inr dmn \<Longrightarrow>
   BoundColumnDescr_get ga d owner
     = Inr (BoundColumn dmn (descr_dtype d) (descr_missing_value d) owner (descr_name d))"
  by (simp add: BoundColumnDescr_get_def BoundColumn_new_def Term_new_def)

lemma BoundColumnDescr_get_error:
  "ga owner ''domain'' = Inl e \<Longrightarrow> BoundColumnDescr_get ga d owner = Inl e"
  by (simp add: BoundColumnDescr_get_def BoundColumn_new_def)

lemma domain_column_lookup:
  "class_lookup domain_column_heap 1 ''domain''
     = Some (ADescr \<lparr>descr_dtype = float64, descr_missing_value = NaN, descr_name = ''domain''\<rparr>)"
  "class_lookup domain_column_heap 1 ''price''
     = Some (ADescr \<lparr>descr_dtype = float64, descr_missing_value = NaN, descr_name = ''price''\<rparr>)"
  by (simp_all add: class_lookup_def class_mro_def domain_column_heap_def DataSet_heap_def)

lemma domain_column_recursion:
  "class_getattr domain_column_heap n 1 ''domain'' = Inl RecursionError"
proof (induction n)
  case 0
  show ?case by (rule class_getattr_descr(2)[OF _ _ domain_column_lookup(1)]) simp_all
next
  case (Suc n)
  have "class_getattr domain_column_heap (Suc n) 1 ''domain''
      = map_sum id OBound (BoundColumnDescr_get (class_getattr domain_column_heap n)
          \<lparr>descr_dtype = float64, descr_missing_value = NaN, descr_name = ''domain''\<rparr> 1)"
    by (rule class_getattr_descr(1)[OF _ _ domain_column_lookup(1)]) simp_all
  also have "\<dots> = Inl RecursionError"
    unfolding BoundColumnDescr_get_error[where ga = "class_getattr domain_column_heap n" and owner = 1, OF Suc] by simp
  finally show ?case .
qed

lemma domain_column_price:
  "class_getattr domain_column_heap n 1 ''price'' = Inl RecursionError"
proof (cases n)
  case 0
  show ?thesis unfolding 0
    by (rule class_getattr_descr(2)[OF _ _ domain_column_lookup(2)]) simp_all
next
  case (Suc m)
  have "class_getattr domain_column_heap (Suc m) 1 ''price''
      = map_sum id OBound (BoundColumnDescr_get (class_getattr domain_column_heap m)
          \<lparr>descr_dtype = float64, descr_missing_value = NaN, descr_name = ''price''\<rparr> 1)"
    by (rule class_getattr_descr(1)[OF _ _ domain_column_lookup(2)]) simp_all
  also have "\<dots> = Inl RecursionError"
    unfolding BoundColumnDescr_get_error[where ga = "class_getattr domain_column_heap m" and owner = 1, OF domain_column_recursion] by simp
  finally show ?thesis unfolding Suc .
qed

subsection \<open>Errors of an attribute read\<close>

text \<open>
  Claim C9 says that no read of a column raises, for every descriptor and every owner.
  It fails for a dataset that declares a column named \<^verbatim>\<open>domain\<close>: a read of any of
  its columns calls \<^verbatim>\<open>BoundColumn.__new__\<close>, which reads \<^verbatim>\<open>dataset.domain\<close>, which is a
  column read again, and so on until the stack is exhausted.
\<close>

theorem resolve_can_raise:
  "DataSetMeta_new numpy_defaults any_value_ok DataSet_heap 1000 ''D'' [DataSet]
      [(''domain'', DColumn (Column_init float64 NotSpecified)),
       (''price'', DColumn (Column_init float64 NotSpecified))]
     = Inr (domain_column_heap, 1)
   \<and> class_lookup domain_column_heap 1 ''price''
     = Some (ADescr \<lparr>descr_dtype = float64, descr_missing_value = NaN, descr_name = ''price''\<rparr>)
   \<and> BoundColumnDescr_get (class_getattr domain_column_heap 1000)
        \<lparr>descr_dtype = float64, descr_missing_value = NaN, descr_name = ''price''\<rparr> 1
     = Inl RecursionError"
  using domain_column_heap_built[of 1000] domain_column_lookup(2)
    BoundColumnDescr_get_error[where ga = "class_getattr domain_column_heap 1000" and owner = 1, OF domain_column_recursion]
  by simp

text \<open>
  Claim C9, amended. For every descriptor and every owner whose \<^verbatim>\<open>domain\<close> attribute
  can be read, the read of the column raises nothing and gives the bound column; and
  \<^verbatim>\<open>BoundColumn.__new__\<close> accepts any dtype, missing value and name as they are: the
  only thing that can fail is the read of \<^verbatim>\<open>dataset.domain\<close>.
\<close>

theorem resolve_raises_nothing:
  assumes "ga owner ''domain'' = Inr dmn"
  shows "BoundColumnDescr_get ga d owner
           = Inr (BoundColumn dmn (descr_dtype d) (descr_missing_value d) owner (descr_name d))
       \<and> BoundColumn_new ga dt mv owner nm = Inr (BoundColumn dmn dt mv owner nm)"
  using assms by (simp add: BoundColumnDescr_get_domain BoundColumn_new_domain)

theorem resolve_raises_nothing_witness:
  "class_getattr DataSet_heap 0 DataSet ''domain'' = Inr (OVal PyNone)
   \<and> BoundColumnDescr_get (class_getattr DataSet_heap 0)
        \<lparr>descr_dtype = float64, descr_missing_value = NaN, descr_name = ''price''\<rparr> DataSet
     = Inr (BoundColumn (OVal PyNone) float64 NaN DataSet ''price'')
   \<and> BoundColumn_new (class_getattr DataSet_heap 0) int64 (PyInt 0) DataSet ''volume''
     = Inr (BoundColumn (OVal PyNone) int64 (PyInt 0) DataSet ''volume'')"
  using DataSet_domain[of 0]
    resolve_raises_nothing[where ga = "class_getattr DataSet_heap 0" and owner = DataSet
      and dmn = "OVal PyNone", OF DataSet_domain,
      where d = "\<lparr>descr_dtype = float64, descr_missing_value = NaN, descr_name = ''price''\<rparr>"
        and dt = int64 and mv = "PyInt 0" and nm = "''volume''"]
  by (simp del: class_getattr.simps)

subsection \<open>Binding and reading\<close>

text \<open>
  Claim C2 says that binding a column and reading it gives a bound column for every
  owner. For the dataset with a column named \<^verbatim>\<open>domain\<close> the read raises
  \<^verbatim>\<open>RecursionError\<close> instead.
\<close>

theorem bind_then_get_can_raise:
  "any_value_ok float64 NaN
   \<and> Column_bind numpy_defaults any_value_ok (Column_init float64 (Given NaN)) ''price''
     = Inr \<lparr>descr_dtype = float64, descr_missing_value = NaN, descr_name = ''price''\<rparr>
   \<and> DataSetMeta_new numpy_defaults any_value_ok DataSet_heap 999 ''D'' [DataSet]
      [(''domain'', DColumn (Column_init float64 NotSpecified)),
       (''price'', DColumn (Column_init float64 NotSpecified))]
     = Inr (domain_column_heap, 1)
   \<and> BoundColumnDescr_get (class_getattr domain_column_heap 999)
        \<lparr>descr_dtype = float64, descr_missing_value = NaN, descr_name = ''price''\<rparr> 1
     = Inl RecursionError"
proof -
  have "Column_bind numpy_defaults any_value_ok (Column_init float64 (Given NaN)) ''price''
     = Inr \<lparr>descr_dtype = float64, descr_missing_value = NaN, descr_name = ''price''\<rparr>"
    by (simp add: Column_bind_def Column_init_def BoundColumnDescr_init_def validate_dtype_def
        any_value_ok_def)
  then show ?thesis
    using domain_column_heap_built[of 999]
      BoundColumnDescr_get_error[where ga = "class_getattr domain_column_heap 999" and owner = 1, OF domain_column_recursion]
    by (simp add: any_value_ok_def)
qed

text \<open>
  Claim C2, amended. For every dtype and missing value that pass the validation, every
  name, and every owner whose \<^verbatim>\<open>domain\<close> attribute can be read, binding the column to
  the name and reading it on the owner gives a bound column with exactly that dtype,
  missing value, owner and name.
\<close>

theorem bind_then_get:
  assumes "mv_ok dt v" and "ga owner ''domain'' = Inr dmn"
  shows "\<exists>d b. Column_bind dflt mv_ok (Column_init dt (Given v)) name = Inr d
             \<and> BoundColumnDescr_get ga d owner = Inr b
             \<and> bc_dtype b = dt \<and> bc_missing_value b = v
             \<and> bc_dataset b = owner \<and> bc_name b = name"
proof -
  let ?d = "\<lparr>descr_dtype = dt, descr_missing_value = v, descr_name = name\<rparr>"
  have 1: "Column_bind dflt mv_ok (Column_init dt (Given v)) name = Inr ?d"
    using assms(1)
    by (simp add: Column_bind_def Column_init_def BoundColumnDescr_init_def validate_dtype_def)
  have 2: "BoundColumnDescr_get ga ?d owner = Inr (BoundColumn dmn dt v owner name)"
    using BoundColumnDescr_get_domain[where ga = ga and owner = owner, OF assms(2), of ?d] by simp
  show ?thesis using 1 2 by simp
qed

theorem bind_then_get_witness:
  "any_value_ok float64 NaN
   \<and> class_getattr DataSet_heap 0 DataSet ''domain'' = Inr (OVal PyNone)
   \<and> (\<exists>d b. Column_bind numpy_defaults any_value_ok (Column_init float64 (Given NaN)) ''price'' = Inr d
             \<and> BoundColumnDescr_get (class_getattr DataSet_heap 0) d DataSet = Inr b
             \<and> bc_dtype b = float64 \<and> bc_missing_value b = NaN
             \<and> bc_dataset b = DataSet \<and> bc_name b = ''price'')"
proof -
  have a: "any_value_ok float64 NaN" by (simp add: any_value_ok_def)
  show ?thesis
    using a DataSet_domain[of 0]
      bind_then_get[where mv_ok = any_value_ok and ga = "class_getattr DataSet_heap 0" and owner = DataSet,
        OF a DataSet_domain, where dflt = numpy_defaults and name = "''price''"]
    by (simp del: class_getattr.simps)
qed

subsection \<open>Reading twice\<close>

text \<open>
  Claim C4 says that two reads of a column on the same owner give bound columns with
  the same key, for every owner. On the dataset with a column named \<^verbatim>\<open>domain\<close> both
  reads raise \<^verbatim>\<open>RecursionError\<close> and there are no bound columns to compare.
\<close>

theorem two_reads_can_raise:
  "DataSetMeta_new numpy_defaults any_value_ok DataSet_heap 998 ''D'' [DataSet]
      [(''domain'', DColumn (Column_init float64 NotSpecified)),
       (''price'', DColumn (Column_init float64 NotSpecified))]
     = Inr (domain_column_heap, 1)
   \<and> class_getattr domain_column_heap 998 1 ''price'' = Inl RecursionError
   \<and> class_getattr domain_column_heap 997 1 ''price'' = Inl RecursionError"
  using domain_column_heap_built[of 998] domain_column_price[of 998] domain_column_price[of 997]
  by simp

text \<open>
  Claim C4, amended. For every descriptor and every owner whose \<^verbatim>\<open>domain\<close> attribute
  reads as the same value at both calls (whatever the depth of the stack at each call),
  two reads give bound columns with equal keys; they are the same term.
\<close>

theorem two_reads_equal:
  assumes "ga owner ''domain'' = Inr dmn" and "gb owner ''domain'' = Inr dmn"
  shows "\<exists>b1 b2. BoundColumnDescr_get ga d owner = Inr b1
               \<and> BoundColumnDescr_get gb d owner = Inr b2
               \<and> static_identity b1 = static_identity b2 \<and> b1 = b2"
  using BoundColumnDescr_get_domain[where ga = ga and owner = owner, OF assms(1)]
    BoundColumnDescr_get_domain[where ga = gb and owner = owner, OF assms(2)]
  by simp

theorem two_reads_equal_witness:
  "class_getattr DataSet_heap 0 DataSet ''domain'' = Inr (OVal PyNone)
   \<and> class_getattr DataSet_heap 5 DataSet ''domain'' = Inr (OVal PyNone)
   \<and> (\<exists>b1 b2. BoundColumnDescr_get (class_getattr DataSet_heap 0)
                  \<lparr>descr_dtype = float64, descr_missing_value = NaN, descr_name = ''price''\<rparr> DataSet = Inr b1
             \<and> BoundColumnDescr_get (class_getattr DataSet_heap 5)
                  \<lparr>descr_dtype = float64, descr_missing_value = NaN, descr_name = ''price''\<rparr> DataSet = Inr b2
             \<and> static_identity b1 = static_identity b2 \<and> b1 = b2)"
  using DataSet_domain[of 0] DataSet_domain[of 5]
    two_reads_equal[where ga = "class_getattr DataSet_heap 0" and gb = "class_getattr DataSet_heap 5"
      and owner = DataSet, OF DataSet_domain DataSet_domain,
      where d = "\<lparr>descr_dtype = float64, descr_missing_value = NaN, descr_name = ''price''\<rparr>"]
  by (simp del: class_getattr.simps)


section \<open>An example hierarchy\<close>

text \<open>\<^verbatim>\<open>class Base(DataSet): a = Column(float64); b = Column(int64, missing_value=0)\<close>
  and \<^verbatim>\<open>class Derived(Base): c = Column(float64)\<close>.\<close>

definition Base :: cref where
  "Base = 1"

definition Derived :: cref where
  "Derived = 2"

definition base_heap :: heap where
  "base_heap = DataSet_heap @
     [\<lparr>cls_name = ''Base'', cls_bases = [DataSet], cls_mro = [1, 0],
       cls_dict = [(''_column_names'', ANames [''a'', ''b'']),
                   (''a'', ADescr \<lparr>descr_dtype = float64, descr_missing_value = NaN, descr_name = ''a''\<rparr>),
                   (''b'', ADescr \<lparr>descr_dtype = int64, descr_missing_value = PyInt 0, descr_name = ''b''\<rparr>)]\<rparr>]"

definition hierarchy_heap :: heap where
  "hierarchy_heap = base_heap @
     [\<lparr>cls_name = ''Derived'', cls_bases = [Base], cls_mro = [2, 1, 0],
       cls_dict = [(''_column_names'', ANames [''a'', ''b'', ''c'']),
                   (''c'', ADescr \<lparr>descr_dtype = float64, descr_missing_value = NaN, descr_name = ''c''\<rparr>)]\<rparr>]"

lemmas example_heap_defs =
  hierarchy_heap_def base_heap_def DataSet_heap_def DataSet_def Base_def Derived_def

lemma base_heap_built:
  "DataSetMeta_new numpy_defaults any_value_ok DataSet_heap n ''Base'' [DataSet]
      [(''a'', DColumn (Column_init float64 NotSpecified)),
       (''b'', DColumn (Column_init int64 (Given (PyInt 0))))]
     = Inr (base_heap, Base)"
proof -
  have i: "inherited_names (class_getattr DataSet_heap n) [DataSet] = Inr []"
    using inherited_names_of[where bases = "[DataSet]" and h = DataSet_heap and ns = "\<lambda>b. []" and n = n]
    by (simp add: DataSet_column_names)
  have m: "compute_mro DataSet_heap (length DataSet_heap) [DataSet] = Some [1, 0]"
    by (simp add: compute_mro_def class_mro_def DataSet_heap_def DataSet_def c3_merge.simps
        c3_head_ok_def c3_drop_def)
  have b: "bind_columns numpy_defaults any_value_ok
      [(''a'', DColumn (Column_init float64 NotSpecified)),
       (''b'', DColumn (Column_init int64 (Given (PyInt 0))))]
     = Inr ([(''a'', ADescr \<lparr>descr_dtype = float64, descr_missing_value = NaN, descr_name = ''a''\<rparr>),
             (''b'', ADescr \<lparr>descr_dtype = int64, descr_missing_value = PyInt 0, descr_name = ''b''\<rparr>)],
            [''a'', ''b''])"
    by (simp add: Column_bind_def Column_init_def BoundColumnDescr_init_def validate_dtype_def
        numpy_defaults_def any_value_ok_def)
  have l: "list_all (\<lambda>b. b < length DataSet_heap) [DataSet]"
    by (simp add: DataSet_heap_def DataSet_def)
  show ?thesis
    unfolding DataSetMeta_new_def Let_def
    by (simp only: l i m b) (simp add: example_heap_defs)
qed

lemma Base_column_names:
  "class_lookup base_heap Base ''_column_names'' = Some (ANames [''a'', ''b''])"
  by (simp add: class_lookup_def class_mro_def example_heap_defs)

lemma hierarchy_heap_built:
  "DataSetMeta_new numpy_defaults any_value_ok base_heap n ''Derived'' [Base]
      [(''c'', DColumn (Column_init float64 NotSpecified))]
     = Inr (hierarchy_heap, Derived)"
proof -
  have i: "inherited_names (class_getattr base_heap n) [Base] = Inr [''a'', ''b'']"
    using inherited_names_of[where bases = "[Base]" and h = base_heap
        and ns = "\<lambda>b. [''a'', ''b'']" and n = n]
    by (simp add: Base_column_names)
  have m: "compute_mro base_heap (length base_heap) [Base] = Some [2, 1, 0]"
    by (simp add: compute_mro_def class_mro_def example_heap_defs c3_merge.simps
        c3_head_ok_def c3_drop_def)
  have b: "bind_columns numpy_defaults any_value_ok
      [(''c'', DColumn (Column_init float64 NotSpecified))]
     = Inr ([(''c'', ADescr \<lparr>descr_dtype = float64, descr_missing_value = NaN, descr_name = ''c''\<rparr>)],
            [''c''])"
    by (simp add: Column_bind_def Column_init_def BoundColumnDescr_init_def validate_dtype_def
        numpy_defaults_def)
  have l: "list_all (\<lambda>b. b < length base_heap) [Base]"
    by (simp add: example_heap_defs)
  show ?thesis
    unfolding DataSetMeta_new_def Let_def
    by (simp only: l i m b) (simp add: example_heap_defs)
qed

lemma hierarchy_lookup:
  "class_lookup hierarchy_heap Derived ''a''
     = Some (ADescr \<lparr>descr_dtype = float64, descr_missing_value = NaN, descr_name = ''a''\<rparr>)"
  "class_lookup hierarchy_heap Derived ''b''
     = Some (ADescr \<lparr>descr_dtype = int64, descr_missing_value = PyInt 0, descr_name = ''b''\<rparr>)"
  "class_lookup hierarchy_heap Derived ''c''
     = Some (ADescr \<lparr>descr_dtype = float64, descr_missing_value = NaN, descr_name = ''c''\<rparr>)"
  "class_lookup hierarchy_heap Base ''a''
     = Some (ADescr \<lparr>descr_dtype = float64, descr_missing_value = NaN, descr_name = ''a''\<rparr>)"
  "class_lookup hierarchy_heap Derived ''domain'' = Some (AValue PyNone)"
  "class_lookup hierarchy_heap Base ''domain'' = Some (AValue PyNone)"
  "class_lookup hierarchy_heap Derived ''_column_names'' = Some (ANames [''a'', ''b'', ''c''])"
  by (simp_all add: class_lookup_def class_mro_def example_heap_defs)

lemma hierarchy_domain:
  "class_getattr hierarchy_heap n Derived ''domain'' = Inr (OVal PyNone)"
  "class_getattr hierarchy_heap n Base ''domain'' = Inr (OVal PyNone)"
  by (rule class_getattr_value; simp add: hierarchy_lookup)+

section \<open>Facts about the resolution order\<close>

lemma c3_drop_subset: "set (c3_drop c s) \<subseteq> set s"
  by (cases s) (auto simp: c3_drop_def)

lemma c3_merge_subset:
  "c3_merge seqs = Some res \<Longrightarrow> set res \<subseteq> \<Union> (set ` set seqs)"
proof (induction seqs arbitrary: res rule: c3_merge.induct)
  case (1 seqs)
  define ss where "ss = filter (\<lambda>s. s \<noteq> []) seqs"
  show ?case
  proof (cases "ss = []")
    case True
    then have "res = []" using "1.prems" by (simp add: c3_merge.simps[of seqs] ss_def)
    then show ?thesis by simp
  next
    case False
    from "1.prems" False obtain c res' where
      f: "find (c3_head_ok ss) (map hd ss) = Some c"
      and r: "c3_merge (map (c3_drop c) ss) = Some res'" and res: "res = c # res'"
      by (auto simp: c3_merge.simps[of seqs] ss_def[symmetric] Let_def split: option.splits)
    have ih: "set res' \<subseteq> \<Union> (set ` set (map (c3_drop c) ss))"
      by (rule "1.IH"[OF ss_def False f r])
    have sub: "\<Union> (set ` set (map (c3_drop c) ss)) \<subseteq> \<Union> (set ` set seqs)"
      using c3_drop_subset by (fastforce simp: ss_def)
    from f have "c \<in> set (map hd ss)" by (auto simp: find_Some_iff)
    then obtain s where "s \<in> set ss" "c = hd s" by auto
    moreover have "s \<noteq> []" using \<open>s \<in> set ss\<close> by (simp add: ss_def)
    ultimately have "c \<in> set s" "s \<in> set seqs" by (auto simp: ss_def)
    then have "c \<in> \<Union> (set ` set seqs)" by blast
    then show ?thesis using ih sub res by auto
  qed
qed


lemma c3_drop_insert: "set s \<subseteq> insert c (set (c3_drop c s))"
  by (cases s) (auto simp: c3_drop_def)

lemma c3_merge_superset:
  "c3_merge seqs = Some res \<Longrightarrow> \<Union> (set ` set seqs) \<subseteq> set res"
proof (induction seqs arbitrary: res rule: c3_merge.induct)
  case (1 seqs)
  define ss where "ss = filter (\<lambda>s. s \<noteq> []) seqs"
  have u: "\<Union> (set ` set seqs) = \<Union> (set ` set ss)"
    by (auto simp: ss_def)
  show ?case
  proof (cases "ss = []")
    case True
    then show ?thesis unfolding u by simp
  next
    case False
    from "1.prems" False obtain c res' where
      f: "find (c3_head_ok ss) (map hd ss) = Some c"
      and r: "c3_merge (map (c3_drop c) ss) = Some res'" and res: "res = c # res'"
      by (auto simp: c3_merge.simps[of seqs] ss_def[symmetric] Let_def split: option.splits)
    have ih: "\<Union> (set ` set (map (c3_drop c) ss)) \<subseteq> set res'"
      by (rule "1.IH"[OF ss_def False f r])
    have "set s \<subseteq> insert c (set (c3_drop c s))" for s
      by (rule c3_drop_insert)
    then have "\<Union> (set ` set ss) \<subseteq> insert c (\<Union> (set ` set (map (c3_drop c) ss)))"
      by fastforce
    then show ?thesis unfolding u using ih res by auto
  qed
qed

lemma c3_merge_set: "c3_merge seqs = Some res \<Longrightarrow> set res = \<Union> (set ` set seqs)"
  using c3_merge_subset c3_merge_superset by blast


section \<open>Heaps built by class statements\<close>

text \<open>What holds of every class in a heap built by \<^verbatim>\<open>DataSetMeta.__new__\<close> alone: the
  resolution order starts with the class and goes on with older classes; the class has
  its own \<^verbatim>\<open>_column_names\<close>; the column names of every class of its resolution order are
  among its own; and a descriptor sits under the name it was bound to.\<close>

definition wf_heap :: "heap \<Rightarrow> bool" where
  "wf_heap h \<longleftrightarrow>
     (\<forall>r < length h.
        (\<exists>rest. cls_mro (h ! r) = r # rest \<and> (\<forall>c \<in> set rest. c < r))
      \<and> (\<exists>ns. map_of (cls_dict (h ! r)) ''_column_names'' = Some (ANames ns))
      \<and> (\<forall>a \<in> set (cls_mro (h ! r)). column_names h a \<subseteq> column_names h r)
      \<and> (\<forall>k d. map_of (cls_dict (h ! r)) k = Some (ADescr d) \<longrightarrow> descr_name d = k))"

lemma DataSetMeta_new_cases:
  assumes "DataSetMeta_new dflt mv_ok h n name bases dct = Inr (h', r)"
  obtains res inh entries own where
    "list_all (\<lambda>b. b < length h) bases"
    "c3_merge (map (class_mro h) bases @ [bases]) = Some res"
    "inherited_names (class_getattr h n) bases = Inr inh"
    "bind_columns dflt mv_ok dct = Inr (entries, own)"
    "r = length h"
    "h' = h @ [\<lparr>cls_name = name, cls_bases = bases, cls_mro = length h # res,
                 cls_dict = (''_column_names'', ANames (remdups (inh @ own))) # entries\<rparr>]"
  using assms
  by (auto simp: DataSetMeta_new_def Let_def compute_mro_def split: if_splits option.splits sum.splits)

lemma mro_lookup_append:
  "\<forall>c \<in> set cs. c < length h \<Longrightarrow> mro_lookup (h @ ext) cs nm = mro_lookup h cs nm"
  by (induction cs) (auto simp: nth_append split: option.splits)

lemma wf_heap_mro_bound:
  assumes "wf_heap h" and "r < length h"
  shows "\<forall>c \<in> set (class_mro h r). c < length h"
proof -
  from assms obtain rest where "cls_mro (h ! r) = r # rest" "\<forall>c \<in> set rest. c < r"
    unfolding wf_heap_def by blast
  then show ?thesis using assms(2) by (auto simp: class_mro_def)
qed

lemma class_mro_append: "r < length h \<Longrightarrow> class_mro (h @ ext) r = class_mro h r"
  by (simp add: class_mro_def nth_append)

lemma class_lookup_append:
  assumes "wf_heap h" and "r < length h"
  shows "class_lookup (h @ ext) r nm = class_lookup h r nm"
  unfolding class_lookup_def class_mro_append[OF assms(2)]
  by (rule mro_lookup_append) (rule wf_heap_mro_bound[OF assms])

lemma column_names_append:
  assumes "wf_heap h" and "r < length h"
  shows "column_names (h @ ext) r = column_names h r"
  by (simp add: column_names_def class_lookup_append[OF assms])

lemma wf_heap_column_names:
  assumes "wf_heap h" and "r < length h"
  shows "\<exists>ns. class_lookup h r ''_column_names'' = Some (ANames ns)"
proof -
  from assms obtain rest ns where "cls_mro (h ! r) = r # rest"
    and "map_of (cls_dict (h ! r)) ''_column_names'' = Some (ANames ns)"
    unfolding wf_heap_def by blast
  then show ?thesis using assms(2) by (simp add: class_lookup_def class_mro_def)
qed

end
